theory Spec2Isabelle
  imports Main "HOL-Library.Word" "HOL-Library.Sublist"
begin

unbundle bit_operations_syntax

section \<open>InputDecoder: the default end-of-message finder\<close>

text \<open>
  \<^verbatim>\<open>std::memchr(s, c, n)\<close> scans the first \<open>n\<close> bytes of \<open>s\<close> and returns the position of the
  first byte equal to \<open>c\<close>, or a null pointer. The array is a list of bytes; a position is
  an index into it. Scanning past the end of the array is outside the contract of
  \<^verbatim>\<open>memchr\<close>; the scan of the model stops there with no result.
\<close>

fun memchr :: "char list \<Rightarrow> char \<Rightarrow> nat \<Rightarrow> nat option" where
  "memchr [] c n = None"
| "memchr (x # xs) c n =
     (if n = 0 then None
      else if x = c then Some 0
      else map_option Suc (memchr xs c (n - 1)))"

definition newline :: char where
  "newline = CHR 0x0A"

text \<open>
  \<^verbatim>\<open>InputDecoder::end_of_msg_finder\<close> (InputDecoder.h):
  \<^verbatim>\<open>newline ? newline - new_data + 1 : 0\<close>.
\<close>

definition end_of_msg_finder :: "char list \<Rightarrow> nat \<Rightarrow> nat" where
  "end_of_msg_finder new_data rlen =
     (case memchr new_data newline rlen of
        Some i \<Rightarrow> i + 1
      | None \<Rightarrow> 0)"


section \<open>EventLoopThread: wake-up handler and the thread-pool closure\<close>

text \<open>The tri-state \<^verbatim>\<open>m_terminate\<close> and the part of the dispatcher the handler touches.\<close>

datatype terminate_type = not_yet | cleanly | forced

record EventLoopThread =
  m_terminate :: terminate_type
  m_active :: int
  m_stop_running :: bool
  m_running :: bool

text \<open>\<^verbatim>\<open>EventLoopThread::s_wakeup_handler\<close>.\<close>

definition s_wakeup_handler :: "EventLoopThread \<Rightarrow> EventLoopThread" where
  "s_wakeup_handler self =
     (if m_terminate self = forced \<or> (m_terminate self = cleanly \<and> m_active self = 0)
      then self\<lparr>m_stop_running := True\<rparr>
      else self)"

text \<open>
  The event bits of \<^verbatim>\<open><sys/epoll.h>\<close> on Linux, as \<^verbatim>\<open>uint32_t\<close> masks.
\<close>

type_synonym events_t = "32 word"

definition EPOLLIN :: events_t where "EPOLLIN = 0x001"
definition EPOLLOUT :: events_t where "EPOLLOUT = 0x004"
definition EPOLLERR :: events_t where "EPOLLERR = 0x008"
definition EPOLLHUP :: events_t where "EPOLLHUP = 0x010"

text \<open>
  The closure that \<^verbatim>\<open>EventLoopThread::main\<close> moves into the thread-pool queue captures the
  device and the event mask. What the device's virtual callbacks do is the device's
  business; the closure is modelled by the sequence of calls it makes on the device, in
  order. \<^verbatim>\<open>DoutFatal(dc::core, ...)\<close> aborts the process: the trace ends with \<open>Abort\<close>.
\<close>

datatype call =
    HupEvent
  | ExceptionalEvent
  | ReadEvent
  | WriteEvent
  | Close
  | ClearBeingProcessed events_t
  | AllowDeletion
  | Abort

definition closure :: "events_t \<Rightarrow> call list" where
  "closure events =
     (if events AND NOT (EPOLLIN OR EPOLLOUT) \<noteq> 0 then
        (if events AND EPOLLHUP \<noteq> 0 then
           [HupEvent, Close, ClearBeingProcessed EPOLLHUP, AllowDeletion]
         else if events AND EPOLLERR \<noteq> 0 then
           [ExceptionalEvent, ClearBeingProcessed EPOLLERR, AllowDeletion]
         else [Abort])
      else
        (if events AND EPOLLIN \<noteq> 0 then [ReadEvent, ClearBeingProcessed EPOLLIN] else []) @
        (if events AND EPOLLOUT \<noteq> 0 then [WriteEvent, ClearBeingProcessed EPOLLOUT] else []) @
        [AllowDeletion])"


section \<open>StreamBuf: the data model\<close>

text \<open>
  A pointer into the buffer is the null pointer, the address of the static sentinel
  \<^verbatim>\<open>StreamBufCommon::s_next_egptr_init\<close>, or an address inside the data area of a memory
  block: \<open>Ptr b i\<close> is \<^verbatim>\<open>block_start() + i\<close> of the block whose allocation number is \<open>b\<close>.
  The data areas \<^verbatim>\<open>[block_start(), block_start() + get_size()]\<close> of two blocks that are
  alive at the same time never meet (a \<^verbatim>\<open>MemoryBlock\<close> header precedes each data area), so
  two such pointers are equal exactly when block and offset are, and
  \<^verbatim>\<open>start <= p && p <= end\<close> holds exactly when \<open>p\<close> lies in that block. An allocation
  number is never used twice, whereas \<^verbatim>\<open>malloc\<close> can hand out the address of a freed block
  again: the pointers that the source compares (\<^verbatim>\<open>m_next_egptr\<close>, \<^verbatim>\<open>m_last_gptr\<close>, \<open>pptr\<close>)
  point into the put node or the get node, which are alive, and the consumer moves
  \<^verbatim>\<open>m_last_gptr\<close> to the next block before it releases one.
\<close>

datatype ptr = Null | Init | Ptr nat nat

text \<open>
  \<^verbatim>\<open>class MemoryBlock\<close>: the size of the data area and the data itself. \<open>m_id\<close> is the
  identity of the allocation. The reference count only decides when the memory is handed
  back to \<^verbatim>\<open>malloc\<close> and is left out; the \<^verbatim>\<open>m_next\<close> link is the order of the blocks in the
  state below.
\<close>

record MemoryBlock =
  m_id :: nat
  m_block_size :: nat
  m_data :: "char list"

definition block_start :: "MemoryBlock \<Rightarrow> ptr" where
  "block_start b = Ptr (m_id b) 0"



text \<open>
  The integer types of the source, on the LP64 platform it is written for. A value is an
  \<open>int\<close> (or a \<open>nat\<close> where the type is unsigned), and every conversion is written out:

    \<^item> \<^verbatim>\<open>size_t\<close> has 64 bits and its arithmetic wraps around: \<open>size_t i\<close> is \<open>i\<close> modulo
      \<open>2 ^ 64\<close>;
    \<^item> \<^verbatim>\<open>std::streamsize\<close> and \<^verbatim>\<open>std::ptrdiff_t\<close> are signed with 64 bits, \<^verbatim>\<open>int\<close> is signed
      with 32 bits. A conversion to a signed type keeps the low bits (the value modulo
      \<open>2 ^ 64\<close> or \<open>2 ^ 32\<close>, read in two's complement): \<open>to_streamsize\<close> and \<open>to_int\<close>.
      That is what C++20 prescribes and what GCC and Clang have always done. The same
      holds for the result of \<^verbatim>\<open>+=\<close> on a \<^verbatim>\<open>std::streamsize\<close> with a \<^verbatim>\<open>size_t\<close> operand (the
      sum is formed in \<^verbatim>\<open>size_t\<close> and converted back) and for arithmetic on a
      \<^verbatim>\<open>std::atomic<std::streamsize>\<close>, which wraps;
    \<^item> arithmetic between two signed operands must stay in range: a signed overflow is
      undefined behaviour. \<open>in_streamsize\<close> is the range of \<^verbatim>\<open>std::streamsize\<close>.

  An operation whose behaviour is undefined has no result: it is \<open>None\<close>.
\<close>

definition size_t :: "int \<Rightarrow> nat" where
  "size_t i = nat (i mod 2 ^ 64)"

definition to_streamsize :: "int \<Rightarrow> int" where
  "to_streamsize i = signed_take_bit 63 i"

definition to_int :: "int \<Rightarrow> int" where
  "to_int i = signed_take_bit 31 i"

definition in_streamsize :: "int \<Rightarrow> bool" where
  "in_streamsize i = (- (2 ^ 63) \<le> i \<and> i < 2 ^ 63)"

text \<open>
  The state of one \<^verbatim>\<open>StreamBuf\<close> as \<^verbatim>\<open>StreamBuf.cxx\<close> uses it: the atomics of
  \<^verbatim>\<open>StreamBufCommon\<close>, the producer's and the consumer's members, and the put and get area
  of the \<^verbatim>\<open>std::streambuf\<close> base.

  The singly linked chain of blocks runs from \<^verbatim>\<open>m_get_area_block_node\<close> to
  \<^verbatim>\<open>m_put_area_block_node\<close>, whose \<^verbatim>\<open>m_next\<close> is null. It is kept as the put node together
  with the list \<open>m_older_blocks\<close> of the blocks before it, the get node first:
  \<^verbatim>\<open>m_get_area_block_node\<close> is the head of that list, or the put node when the list is
  empty, and \<^verbatim>\<open>node->m_next\<close> is the successor in the list.

  \<^verbatim>\<open>pbase()\<close> is \<^verbatim>\<open>block_start()\<close> of the put node and \<^verbatim>\<open>eback()\<close> is \<^verbatim>\<open>block_start()\<close> of the
  get node (every \<^verbatim>\<open>setp\<close> and \<^verbatim>\<open>setg\<close> of the source passes exactly that); \<open>pptr\<close>,
  \<open>epptr\<close>, \<open>gptr\<close> and \<open>egptr\<close> are offsets from them. The four byte counters have the type
  \<^verbatim>\<open>std::streamsize\<close> (\<^verbatim>\<open>m_total_freed\<close> and \<^verbatim>\<open>m_total_read\<close> are atomics of it); the two
  block size limits are \<^verbatim>\<open>size_t\<close>. \<open>m_created\<close> counts the calls of \<^verbatim>\<open>malloc\<close> so far and
  numbers the next block.

  Assertions of the debug build (\<^verbatim>\<open>ASSERT\<close>) are not branches of the model; where the code
  that follows a failed assertion has undefined behaviour, the operation has no result.
\<close>

record StreamBuf =
  m_next_egptr :: ptr
  m_next_egptr2 :: ptr
  m_last_gptr :: ptr
  m_total_freed :: int
  m_total_read :: int
  m_minimum_block_size :: nat
  m_max_allocated_block_size :: nat
  m_total_allocated :: int
  m_total_reset :: int
  m_put_area_block_node :: MemoryBlock
  m_older_blocks :: "MemoryBlock list"
  pptr :: nat
  epptr :: nat
  gptr :: nat
  egptr :: nat
  m_created :: nat

definition m_get_area_block_node :: "StreamBuf \<Rightarrow> MemoryBlock" where
  "m_get_area_block_node st =
     (case m_older_blocks st of [] \<Rightarrow> m_put_area_block_node st | b # bs \<Rightarrow> b)"

text \<open>
  \<^verbatim>\<open>utils::malloc_size\<close>, \<^verbatim>\<open>utils::max_malloc_size\<close>, \<^verbatim>\<open>sizeof(MemoryBlock)\<close> and \<^verbatim>\<open>malloc\<close>
  itself belong to the platform and an external library; they are parameters.
  \<open>malloc A k n\<close> tells whether the call of \<^verbatim>\<open>malloc\<close> number \<open>k\<close> of this buffer, asking for
  \<open>n\<close> bytes, returns memory (\<open>True\<close>) or a null pointer.
\<close>

record allocator =
  malloc_size :: "nat \<Rightarrow> nat"
  max_malloc_size :: "nat \<Rightarrow> nat"
  sizeof_MemoryBlock :: nat
  malloc :: "nat \<Rightarrow> nat \<Rightarrow> bool"

text \<open>
  The exception that \<^verbatim>\<open>MemoryBlock::create\<close> throws (\<^verbatim>\<open>THROW_FMALERTE\<close>) when \<^verbatim>\<open>malloc\<close>
  returns a null pointer. A call that throws is \<open>Inl\<close> of it, paired with the state the
  call leaves behind.
\<close>

datatype error = AllocationFailed

definition EOF :: int where
  "EOF = - 1"


section \<open>StreamBuf: the producer\<close>

text \<open>
  Modelled from the spec: \<^verbatim>\<open>sync_egptr\<close> for the pair \<^verbatim>\<open>m_next_egptr\<close> / \<^verbatim>\<open>m_next_egptr2\<close>
  that \<^verbatim>\<open>StreamBuf.cxx\<close> reads. The header under \<^verbatim>\<open>src/\<close> declares \<^verbatim>\<open>m_last_pptr\<close> and
  \<^verbatim>\<open>m_resetting\<close> instead and its \<^verbatim>\<open>sync_egptr\<close> stores to \<^verbatim>\<open>m_last_pptr\<close>; the declaration
  that goes with \<^verbatim>\<open>StreamBuf.cxx\<close> is missing. The spec: the producer publishes its current
  \<open>pptr\<close>; while a reset is pending (here: while \<^verbatim>\<open>m_next_egptr\<close> is null) it does not
  advance the published cursor, and the consumer picks up the newest producer cursor from
  \<^verbatim>\<open>next_egptr2\<close> when it acknowledges the reset. \<^verbatim>\<open>StreamBuf.cxx\<close> says the same in
  \<^verbatim>\<open>update_put_area\<close> (a null \<^verbatim>\<open>m_next_egptr\<close> prevents the producer from writing to it until
  the consumer did reset too) and in \<^verbatim>\<open>update_get_area\<close> (a call of \<^verbatim>\<open>sync_egptr\<close> changes
  \<^verbatim>\<open>m_next_egptr2\<close> and can miss \<^verbatim>\<open>m_next_egptr\<close>).
\<close>

definition sync_egptr :: "ptr \<Rightarrow> StreamBuf \<Rightarrow> StreamBuf" where
  "sync_egptr cur_pptr st =
     st\<lparr>m_next_egptr2 := cur_pptr,
        m_next_egptr := (if m_next_egptr st = Null then Null else cur_pptr)\<rparr>"

text \<open>
  \<^verbatim>\<open>std::streambuf::pbump(int n)\<close>: \<open>pptr\<close> moves by \<open>n\<close>, which has been converted to \<^verbatim>\<open>int\<close>
  by the caller. The standard library does not check the result; a pointer that leaves
  the data area of the put node is undefined behaviour.
\<close>

definition streambuf_pbump :: "int \<Rightarrow> StreamBuf \<Rightarrow> StreamBuf option" where
  "streambuf_pbump n st =
     (let p = int (pptr st) + n
      in if 0 \<le> p \<and> p \<le> int (m_block_size (m_put_area_block_node st))
         then Some (st\<lparr>pptr := nat p\<rparr>)
         else None)"

text \<open>
  The statements that change the state in the body of the \<^verbatim>\<open>if\<close> of
  \<^verbatim>\<open>StreamBufProducer::update_put_area\<close>, one constructor for each:
  \<^verbatim>\<open>m_next_egptr2.store(p)\<close>, \<^verbatim>\<open>m_next_egptr.store(p)\<close>, \<^verbatim>\<open>m_total_reset += d\<close> (an addition of
  two signed values) and \<^verbatim>\<open>std::streambuf::pbump(n)\<close>.
\<close>

datatype statement =
    Store_next_egptr2 ptr
  | Store_next_egptr ptr
  | Add_total_reset int
  | Streambuf_pbump int

fun exec_statement :: "statement \<Rightarrow> StreamBuf \<Rightarrow> StreamBuf option" where
  "exec_statement (Store_next_egptr2 p) st = Some (st\<lparr>m_next_egptr2 := p\<rparr>)"
| "exec_statement (Store_next_egptr p) st = Some (st\<lparr>m_next_egptr := p\<rparr>)"
| "exec_statement (Add_total_reset d) st =
     (if in_streamsize (m_total_reset st + d)
      then Some (st\<lparr>m_total_reset := m_total_reset st + d\<rparr>)
      else None)"
| "exec_statement (Streambuf_pbump n) st = streambuf_pbump n st"

fun exec_statements :: "statement list \<Rightarrow> StreamBuf \<Rightarrow> StreamBuf option" where
  "exec_statements [] st = Some st"
| "exec_statements (x # xs) st =
     (case exec_statement x st of None \<Rightarrow> None | Some st' \<Rightarrow> exec_statements xs st')"

text \<open>
  \<^verbatim>\<open>StreamBufProducer::update_put_area\<close>. \<open>update_put_area_resets\<close> is the condition of its
  \<^verbatim>\<open>if\<close>. \<open>update_put_area_trace\<close> is the list of the statements the call executes on the
  state, in the order of the source: on a reset
  \<^verbatim>\<open>m_next_egptr2.store(block_start)\<close>, \<^verbatim>\<open>m_next_egptr.store(nullptr)\<close>,
  \<^verbatim>\<open>m_total_reset += cur_pptr - block_start\<close> and
  \<^verbatim>\<open>std::streambuf::pbump(block_start - cur_pptr)\<close>, whose argument, a \<^verbatim>\<open>std::ptrdiff_t\<close>, is
  converted to \<^verbatim>\<open>int\<close>; otherwise none. The result of \<open>update_put_area\<close> is the local
  \<^verbatim>\<open>cur_pptr\<close> (as an offset from \<^verbatim>\<open>pbase()\<close>; after a reset the source assigns
  \<^verbatim>\<open>block_start\<close> to it, whatever \<^verbatim>\<open>pbump\<close> did), \<^verbatim>\<open>available\<close> and the new state.
\<close>

definition update_put_area_resets :: "StreamBuf \<Rightarrow> bool" where
  "update_put_area_resets st =
     (let block_start = Ptr (m_id (m_put_area_block_node st)) 0;
          cur_pptr = Ptr (m_id (m_put_area_block_node st)) (pptr st)
      in cur_pptr \<noteq> block_start \<and> m_next_egptr st \<noteq> Null \<and> cur_pptr = m_last_gptr st)"

definition update_put_area_trace :: "StreamBuf \<Rightarrow> statement list" where
  "update_put_area_trace st =
     (if update_put_area_resets st
      then [Store_next_egptr2 (Ptr (m_id (m_put_area_block_node st)) 0),
            Store_next_egptr Null,
            Add_total_reset (int (pptr st)),
            Streambuf_pbump (to_int (- int (pptr st)))]
      else [])"

definition update_put_area :: "StreamBuf \<Rightarrow> (nat \<times> int \<times> StreamBuf) option" where
  "update_put_area st =
     (case exec_statements (update_put_area_trace st) st of
        None \<Rightarrow> None
      | Some st' \<Rightarrow>
          (let cur_pptr = (if update_put_area_resets st then 0 else pptr st)
           in Some (cur_pptr, int (epptr st') - int cur_pptr, st')))"

text \<open>
  \<^verbatim>\<open>unused_in_last_block\<close>, \<^verbatim>\<open>get_allocated_upper_bound\<close>, \<^verbatim>\<open>get_data_size_upper_bound\<close>, all
  of which return a \<^verbatim>\<open>size_t\<close>. \<^verbatim>\<open>get_allocated_upper_bound\<close> subtracts two
  \<^verbatim>\<open>std::streamsize\<close> values (undefined when the difference overflows);
  \<^verbatim>\<open>get_data_size_upper_bound\<close> has a \<^verbatim>\<open>size_t\<close> operand, so that its arithmetic is that of
  \<^verbatim>\<open>size_t\<close>.
\<close>

definition unused_in_last_block :: "StreamBuf \<Rightarrow> nat" where
  "unused_in_last_block st = size_t (int (epptr st) - int (pptr st))"

definition get_allocated_upper_bound :: "StreamBuf \<Rightarrow> nat option" where
  "get_allocated_upper_bound st =
     (if in_streamsize (m_total_allocated st - m_total_freed st)
      then Some (size_t (m_total_allocated st - m_total_freed st))
      else None)"

definition get_data_size_upper_bound :: "StreamBuf \<Rightarrow> nat" where
  "get_data_size_upper_bound st =
     size_t (m_total_allocated st - int (unused_in_last_block st)
             + m_total_reset st - m_total_read st)"

text \<open>\<^verbatim>\<open>StreamBufProducer::new_block_size\<close>.\<close>

definition new_block_size :: "allocator \<Rightarrow> StreamBuf \<Rightarrow> nat" where
  "new_block_size A st =
     size_t (int (malloc_size A
                    (size_t (int (max (get_data_size_upper_bound st) (m_minimum_block_size st))
                             + int (sizeof_MemoryBlock A))))
             - int (sizeof_MemoryBlock A))"

text \<open>
  The choice of the size of a new block, written out twice in the source (in \<^verbatim>\<open>overflow_a\<close>
  and in \<^verbatim>\<open>xsputn_a\<close>). The result \<open>Some None\<close> stands for the branch that returns \<^verbatim>\<open>EOF\<close>,
  \<open>Some (Some block_size)\<close> for the size chosen.
\<close>

definition choose_block_size :: "allocator \<Rightarrow> StreamBuf \<Rightarrow> nat option option" where
  "choose_block_size A st =
     (case get_allocated_upper_bound st of
        None \<Rightarrow> None
      | Some allocated \<Rightarrow>
          (let block_size = new_block_size A st
           in if size_t (int allocated + int block_size) > m_max_allocated_block_size st
              then
                (let block_size = size_t (int (max_malloc_size A
                                      (size_t (int (m_max_allocated_block_size st)
                                               - int allocated
                                               + int (sizeof_MemoryBlock A))))
                                    - int (sizeof_MemoryBlock A))
                 in if block_size < m_minimum_block_size st then Some None
                    else Some (Some block_size))
              else Some (Some block_size)))"

text \<open>
  \<^verbatim>\<open>MemoryBlock::create\<close>: \<^verbatim>\<open>malloc(sizeof(MemoryBlock) + block_size)\<close>, a sum in \<^verbatim>\<open>size_t\<close>.
  When \<^verbatim>\<open>malloc\<close> returns a null pointer the call throws. When the sum has wrapped
  around, the memory obtained is smaller than the block constructed in it, which is
  undefined behaviour. The bytes of the fresh data area are indeterminate in C++ and zero
  here.
\<close>

definition MemoryBlock_create ::
  "allocator \<Rightarrow> nat \<Rightarrow> StreamBuf \<Rightarrow> ((error + MemoryBlock) \<times> StreamBuf) option" where
  "MemoryBlock_create A block_size st =
     (let request = size_t (int (sizeof_MemoryBlock A) + int block_size);
          st1 = st\<lparr>m_created := m_created st + 1\<rparr>
      in if \<not> malloc A (m_created st) request then Some (Inl AllocationFailed, st1)
         else if request < sizeof_MemoryBlock A + block_size then None
         else Some (Inr \<lparr>m_id = m_created st, m_block_size = block_size,
                         m_data = replicate block_size (CHR 0x00)\<rparr>, st1))"

text \<open>
  \<^verbatim>\<open>StreamBufProducer::create_memory_block\<close>: \<^verbatim>\<open>MemoryBlock::create\<close>, then
  \<^verbatim>\<open>m_total_allocated += block_size\<close> with a \<^verbatim>\<open>size_t\<close> on the right.
\<close>

definition create_memory_block ::
  "allocator \<Rightarrow> nat \<Rightarrow> StreamBuf \<Rightarrow> ((error + MemoryBlock) \<times> StreamBuf) option" where
  "create_memory_block A block_size st =
     (case MemoryBlock_create A block_size st of
        None \<Rightarrow> None
      | Some (Inl e, st1) \<Rightarrow> Some (Inl e, st1)
      | Some (Inr new_block, st1) \<Rightarrow>
          Some (Inr new_block,
                st1\<lparr>m_total_allocated :=
                      to_streamsize (m_total_allocated st1 + int block_size)\<rparr>))"

text \<open>
  \<^verbatim>\<open>std::memcpy(dest, src, len)\<close> into the data area of a block, at offset \<open>i\<close> (also the
  store of one character, \<^verbatim>\<open>*cur_pptr = c\<close>). Writing outside the data area is undefined
  behaviour.
\<close>

definition memcpy_to :: "nat \<Rightarrow> char list \<Rightarrow> MemoryBlock \<Rightarrow> MemoryBlock option" where
  "memcpy_to i src blk =
     (if i + length src \<le> m_block_size blk \<and> m_block_size blk \<le> length (m_data blk)
      then Some (blk\<lparr>m_data := take i (m_data blk) @ src @ drop (i + length src) (m_data blk)\<rparr>)
      else None)"

text \<open>
  The tail of the allocation branch: \<^verbatim>\<open>m_put_area_block_node->m_next = new_block\<close>,
  \<^verbatim>\<open>setp\<close> (or \<^verbatim>\<open>setp_pbump\<close>) with \<open>n\<close> bytes already in the block, and
  \<^verbatim>\<open>m_put_area_block_node = new_block\<close>.
\<close>

definition link_new_block :: "MemoryBlock \<Rightarrow> nat \<Rightarrow> StreamBuf \<Rightarrow> StreamBuf" where
  "link_new_block new_block n st =
     (sync_egptr (Ptr (m_id new_block) n) st)
       \<lparr>m_older_blocks := m_older_blocks st @ [m_put_area_block_node st],
        m_put_area_block_node := new_block,
        pptr := n,
        epptr := m_block_size new_block\<rparr>"

text \<open>
  \<^verbatim>\<open>pbump(int n)\<close> of \<^verbatim>\<open>StreamBufProducer\<close>: \<^verbatim>\<open>std::streambuf::pbump(n)\<close> and
  \<^verbatim>\<open>sync_egptr()\<close>, which publishes the new \<open>pptr\<close>.
\<close>

definition pbump :: "int \<Rightarrow> StreamBuf \<Rightarrow> StreamBuf option" where
  "pbump n st =
     (case streambuf_pbump n st of
        None \<Rightarrow> None
      | Some st1 \<Rightarrow> Some (sync_egptr (Ptr (m_id (m_put_area_block_node st1)) (pptr st1)) st1))"

text \<open>
  The first half of the body of the loop of \<^verbatim>\<open>StreamBufProducer::xsputn_a\<close>:
  \<^verbatim>\<open>update_put_area\<close> and, when \<^verbatim>\<open>available > 0\<close>, the \<^verbatim>\<open>memcpy\<close> of \<^verbatim>\<open>len\<close> bytes to
  \<^verbatim>\<open>cur_pptr\<close> and \<^verbatim>\<open>pbump(len)\<close>: \<^verbatim>\<open>len\<close> is a \<^verbatim>\<open>std::streamsize\<close> and the parameter of
  \<^verbatim>\<open>pbump\<close> an \<^verbatim>\<open>int\<close>. The result is \<^verbatim>\<open>len\<close> (0 when nothing was copied) and the state.
\<close>

definition xsputn_copy :: "StreamBuf \<Rightarrow> char list \<Rightarrow> (nat \<times> StreamBuf) option" where
  "xsputn_copy st s =
     (case update_put_area st of
        None \<Rightarrow> None
      | Some (cur_pptr, available, st1) \<Rightarrow>
          if 0 < available then
            (let len = min (nat available) (length s)
             in case memcpy_to cur_pptr (take len s) (m_put_area_block_node st1) of
                  None \<Rightarrow> None
                | Some blk \<Rightarrow>
                    (case pbump (to_int (int len)) (st1\<lparr>m_put_area_block_node := blk\<rparr>) of
                       None \<Rightarrow> None
                     | Some st2 \<Rightarrow> Some (len, st2)))
          else Some (0, st1))"

text \<open>
  The loop of \<^verbatim>\<open>StreamBufProducer::xsputn_a\<close>. The argument \<open>s\<close> holds the bytes still to
  be written (\<^verbatim>\<open>remaining\<close> is its length). The result is: how the loop was left (its
  condition became false, \<^verbatim>\<open>return static_cast<int_type>(EOF)\<close>, or the exception of
  \<^verbatim>\<open>MemoryBlock::create\<close>), the bytes not written, and the state. The loop has no bound on
  the number of blocks it allocates, so it is a partial function: \<open>None\<close> is undefined
  behaviour or a loop that does not end.
\<close>

datatype xsputn_exit = Done | ReturnedEOF | Thrown

partial_function (option) xsputn_loop ::
  "allocator \<Rightarrow> StreamBuf \<Rightarrow> char list \<Rightarrow> (xsputn_exit \<times> char list \<times> StreamBuf) option" where
  "xsputn_loop A st s =
     (if 0 < length s then
        (case xsputn_copy st s of
           None \<Rightarrow> None
         | Some (len, st2) \<Rightarrow>
             if 0 < length (drop len s) then
               (case choose_block_size A st2 of
                  None \<Rightarrow> None
                | Some None \<Rightarrow> Some (ReturnedEOF, drop len s, st2)
                | Some (Some block_size) \<Rightarrow>
                    (case create_memory_block A block_size st2 of
                       None \<Rightarrow> None
                     | Some (Inl e, st3) \<Rightarrow> Some (Thrown, drop len s, st3)
                     | Some (Inr new_block, st3) \<Rightarrow>
                         xsputn_loop A (link_new_block new_block 0 st3) (drop len s)))
             else xsputn_loop A st2 (drop len s))
      else Some (Done, s, st))"

text \<open>
  \<^verbatim>\<open>StreamBufProducer::xsputn_a\<close>: the value returned, or the exception, and the state.
  The normal exit returns \<^verbatim>\<open>n - remaining\<close>.
\<close>

definition xsputn_a ::
  "allocator \<Rightarrow> StreamBuf \<Rightarrow> char list \<Rightarrow> ((error + int) \<times> StreamBuf) option" where
  "xsputn_a A st s =
     (case xsputn_loop A st s of
        None \<Rightarrow> None
      | Some (exit, s', st') \<Rightarrow>
          Some (case exit of
                  Done \<Rightarrow> Inr (int (length s) - int (length s'))
                | ReturnedEOF \<Rightarrow> Inr EOF
                | Thrown \<Rightarrow> Inl AllocationFailed, st'))"


text \<open>
  \<^verbatim>\<open>StreamBufProducer::pbackfail\<close>. \<^verbatim>\<open>DoutFatal(dc::fatal, ...)\<close> aborts the process.
\<close>

datatype fatal = InvariantViolation

definition pbackfail :: "int \<Rightarrow> StreamBuf \<Rightarrow> fatal + (int \<times> StreamBuf)" where
  "pbackfail c st = (if c = EOF then Inr (0, st) else Inl InvariantViolation)"

text \<open>
  The constructor \<^verbatim>\<open>StreamBuf::StreamBuf\<close>: one block, empty put and get area; it throws
  when the block cannot be allocated. \<^verbatim>\<open>m_next_egptr\<close> starts as the sentinel, so that the
  \<^verbatim>\<open>setp\<close> of the constructor sets it. The watermark \<^verbatim>\<open>buffer_full_watermark\<close> plays no part
  in the operations below and is left out.
\<close>

definition StreamBuf_init :: "allocator \<Rightarrow> nat \<Rightarrow> nat \<Rightarrow> (error + StreamBuf) option" where
  "StreamBuf_init A minimum_block_size max_allocated_block_size =
     (let block_size = size_t (int (malloc_size A
                                      (size_t (int minimum_block_size + int (sizeof_MemoryBlock A))))
                               - int (sizeof_MemoryBlock A));
          st0 = \<lparr>m_next_egptr = Init, m_next_egptr2 = Init, m_last_gptr = Null,
                 m_total_freed = 0, m_total_read = 0,
                 m_minimum_block_size = minimum_block_size,
                 m_max_allocated_block_size = max_allocated_block_size,
                 m_total_allocated = 0, m_total_reset = 0,
                 m_put_area_block_node = \<lparr>m_id = 0, m_block_size = 0, m_data = []\<rparr>,
                 m_older_blocks = [],
                 pptr = 0, epptr = 0, gptr = 0, egptr = 0, m_created = 0\<rparr>
      in case create_memory_block A block_size st0 of
           None \<Rightarrow> None
         | Some (Inl e, st1) \<Rightarrow> Some (Inl e)
         | Some (Inr blk, st1) \<Rightarrow>
             Some (Inr ((sync_egptr (block_start blk) st1)
               \<lparr>m_put_area_block_node := blk, pptr := 0, epptr := block_size,
                m_total_reset := 0, m_total_freed := 0, m_total_read := 0,
                gptr := 0, egptr := 0\<rparr>)))"


section \<open>StreamBuf: the consumer\<close>























text \<open>
  Two allocators for concrete runs, with no rounding and a header of 24 bytes: one whose
  \<^verbatim>\<open>malloc\<close> never fails, and one whose \<^verbatim>\<open>malloc\<close> gives fewer than 1000 bytes at a time.
\<close>

definition plain_allocator :: allocator where
  "plain_allocator =
     \<lparr>malloc_size = (\<lambda>n. n), max_malloc_size = (\<lambda>n. n), sizeof_MemoryBlock = 24,
      malloc = (\<lambda>k n. True)\<rparr>"



section \<open>EventLoopThread: conditional start and stop of a device\<close>

text \<open>
  \<^verbatim>\<open>utils::FuzzyBool\<close> of the external library: a truth value together with whether it can
  still change. \<open>momentary\<close> is what holds now, \<open>transitory\<close> what holds now and can change.
\<close>

datatype FuzzyBool = fuzzy_False | fuzzy_WasFalse | fuzzy_WasTrue | fuzzy_True

definition is_false :: "FuzzyBool \<Rightarrow> bool" where
  "is_false b = (b = fuzzy_False)"

definition is_transitory_false :: "FuzzyBool \<Rightarrow> bool" where
  "is_transitory_false b = (b = fuzzy_WasFalse)"

definition is_transitory_true :: "FuzzyBool \<Rightarrow> bool" where
  "is_transitory_true b = (b = fuzzy_WasTrue)"

definition is_momentary_false :: "FuzzyBool \<Rightarrow> bool" where
  "is_momentary_false b = (b = fuzzy_False \<or> b = fuzzy_WasFalse)"

text \<open>
  \<^verbatim>\<open>utils::FuzzyCondition\<close>: the value that \<^verbatim>\<open>condition.is_false()\<close> and the like test, and
  the value that calling \<^verbatim>\<open>condition()\<close> again, under the state lock, yields.
\<close>

record FuzzyCondition =
  m_value :: FuzzyBool
  reevaluated :: FuzzyBool

text \<open>
  Modelled from the spec: \<^verbatim>\<open>FileDescriptorFlags\<close>, whose declaration is not among the
  sources. The spec gives it as a bitset with the fields r/w open, r/w active, r/w added,
  r/w disabled, regular file, same fd, dead; an inferior device is one that does not count
  toward \<^verbatim>\<open>m_active\<close>. The flags are a set of bits here. \<open>active_flag\<close> is \<open>FDS_R_ACTIVE\<close>
  or \<open>FDS_W_ACTIVE\<close> and selects the direction of the other per-direction bits. The
  test-and-set functions return whether the call changed the bit, as
  \<^verbatim>\<open>EventLoopThread::start\<close> and \<^verbatim>\<open>stop\<close> use them (\<^verbatim>\<open>if (!test_and_set_active(...)) return;\<close>
  under "don't start a device that is already active").
\<close>

datatype flag =
    FDS_R_OPEN | FDS_W_OPEN
  | FDS_R_ACTIVE | FDS_W_ACTIVE
  | FDS_R_ADDED | FDS_W_ADDED
  | FDS_R_DISABLED | FDS_W_DISABLED
  | FDS_R_INFERIOR | FDS_W_INFERIOR
  | FDS_REGULAR_FILE | FDS_SAME | FDS_DEAD

type_synonym FileDescriptorFlags = "flag set"

definition active_to_added :: "flag \<Rightarrow> flag" where
  "active_to_added active_flag = (if active_flag = FDS_R_ACTIVE then FDS_R_ADDED else FDS_W_ADDED)"

definition active_to_disabled :: "flag \<Rightarrow> flag" where
  "active_to_disabled active_flag =
     (if active_flag = FDS_R_ACTIVE then FDS_R_DISABLED else FDS_W_DISABLED)"

definition active_to_inferior :: "flag \<Rightarrow> flag" where
  "active_to_inferior active_flag =
     (if active_flag = FDS_R_ACTIVE then FDS_R_INFERIOR else FDS_W_INFERIOR)"

definition test_disabled :: "flag \<Rightarrow> FileDescriptorFlags \<Rightarrow> bool" where
  "test_disabled active_flag fl = (active_to_disabled active_flag \<in> fl)"

definition test_inferior :: "flag \<Rightarrow> FileDescriptorFlags \<Rightarrow> bool" where
  "test_inferior active_flag fl = (active_to_inferior active_flag \<in> fl)"

definition is_regular_file :: "FileDescriptorFlags \<Rightarrow> bool" where
  "is_regular_file fl = (FDS_REGULAR_FILE \<in> fl)"

definition test_and_set_active :: "flag \<Rightarrow> FileDescriptorFlags \<Rightarrow> bool \<times> FileDescriptorFlags" where
  "test_and_set_active active_flag fl = (active_flag \<notin> fl, insert active_flag fl)"

definition test_and_clear_active :: "flag \<Rightarrow> FileDescriptorFlags \<Rightarrow> bool \<times> FileDescriptorFlags" where
  "test_and_clear_active active_flag fl = (active_flag \<in> fl, fl - {active_flag})"

definition set_active :: "flag \<Rightarrow> FileDescriptorFlags \<Rightarrow> FileDescriptorFlags" where
  "set_active active_flag fl = insert active_flag fl"

definition clear_active :: "flag \<Rightarrow> FileDescriptorFlags \<Rightarrow> FileDescriptorFlags" where
  "clear_active active_flag fl = fl - {active_flag}"

definition test_and_set_added :: "flag \<Rightarrow> FileDescriptorFlags \<Rightarrow> bool \<times> FileDescriptorFlags" where
  "test_and_set_added active_flag fl =
     (active_to_added active_flag \<notin> fl, insert (active_to_added active_flag) fl)"

text \<open>
  What \<^verbatim>\<open>start_if\<close> and \<^verbatim>\<open>stop_if\<close> read and write: the flags of the device (behind the
  state lock, which the caller holds), \<^verbatim>\<open>EventLoopThread::m_active\<close>, and the calls they make
  on the device and on the event loop, in order.
\<close>

datatype device_call =
    InhibitDeletion
  | StartWatching flag bool
  | StopWatching flag bool
  | HandleRegularFile flag
  | BumpTerminate

record device_state =
  m_flags :: FileDescriptorFlags
  active_count :: int
  calls :: "device_call list"

text \<open>
  \<^verbatim>\<open>EventLoopThread::start_if\<close>. The \<^verbatim>\<open>ASSERT\<close> on a transitory-false condition is the
  fatal invariant violation of the spec.
\<close>

definition start_if ::
  "FuzzyCondition \<Rightarrow> flag \<Rightarrow> device_state \<Rightarrow> fatal + (bool \<times> device_state)" where
  "start_if condition active_flag s =
     (if is_false (m_value condition) then Inr (False, s)
      else if test_disabled active_flag (m_flags s) then Inr (True, s)
      else if is_transitory_false (m_value condition) then Inl InvariantViolation
      else
        (case test_and_set_active active_flag (m_flags s) of (changed, fl1) \<Rightarrow>
           if \<not> changed then Inr (True, s\<lparr>m_flags := fl1\<rparr>)
           else if is_transitory_true (m_value condition)
                   \<and> is_momentary_false (reevaluated condition)
           then Inr (False, s\<lparr>m_flags := clear_active active_flag fl1\<rparr>)
           else
             (case test_and_set_added active_flag fl1 of (needs_adding, fl2) \<Rightarrow>
                Inr (True,
                     s\<lparr>m_flags := fl2,
                        active_count :=
                          (if \<not> test_inferior active_flag fl2 then active_count s + 1
                           else active_count s),
                        calls := calls s @
                          (if \<not> is_regular_file fl2
                           then (if needs_adding then [InhibitDeletion] else [])
                                @ [StartWatching active_flag needs_adding]
                           else [HandleRegularFile active_flag])\<rparr>))))"

text \<open>\<^verbatim>\<open>EventLoopThread::stop_if\<close>.\<close>

definition stop_if ::
  "FuzzyCondition \<Rightarrow> flag \<Rightarrow> device_state \<Rightarrow> fatal + (bool \<times> device_state)" where
  "stop_if condition active_flag s =
     (if is_false (m_value condition) then Inr (False, s)
      else if is_transitory_false (m_value condition) then Inl InvariantViolation
      else
        (case test_and_clear_active active_flag (m_flags s) of (changed, fl1) \<Rightarrow>
           if \<not> changed then Inr (True, s\<lparr>m_flags := fl1\<rparr>)
           else if is_transitory_true (m_value condition)
                   \<and> is_momentary_false (reevaluated condition)
           then Inr (False, s\<lparr>m_flags := set_active active_flag fl1\<rparr>)
           else
             Inr (True,
                  s\<lparr>m_flags := fl1,
                     active_count :=
                       (if \<not> test_inferior active_flag fl1 then active_count s - 1
                        else active_count s),
                     calls := calls s @
                       (if \<not> is_regular_file fl1 then [StopWatching active_flag False] else [])
                       @ (if \<not> test_inferior active_flag fl1 \<and> active_count s - 1 = 0
                          then [BumpTerminate] else [])\<rparr>)))"


section \<open>EventLoopThread: dispatch of readiness events to the thread pool\<close>

text \<open>
  Modelled from the spec: \<^verbatim>\<open>FileDescriptor::test_and_set_being_processed_by_thread_pool\<close> and
  \<^verbatim>\<open>clear_being_processed_by_thread_pool\<close>, whose definitions are not among the sources.
  The spec: the dispatcher atomically test-and-sets, on the device, the bits of
  \<^verbatim>\<open>being_processed_by_pool\<close> equal to the event bits and learns which bits were owned
  already; the closure clears the corresponding bit atomically on completion. The first
  returns the previous value of the bits together with the new bits.
\<close>

definition test_and_set_being_processed_by_thread_pool ::
  "events_t \<Rightarrow> events_t \<Rightarrow> events_t \<times> events_t" where
  "test_and_set_being_processed_by_thread_pool events bits = (bits, bits OR events)"

definition clear_being_processed_by_thread_pool :: "events_t \<Rightarrow> events_t \<Rightarrow> events_t" where
  "clear_being_processed_by_thread_pool event bits = bits AND NOT event"

text \<open>
  One device, the thread-pool queue and the workers. A queue entry is the event bits its
  closure captured; a worker is the list of calls its closure still has to make, the
  first of them being the call it is in.
\<close>

record pool_state =
  m_being_processed_by_thread_pool :: events_t
  queue :: "events_t list"
  workers :: "call list list"

text \<open>
  The body of \<^verbatim>\<open>while (nfds > 0)\<close> in \<^verbatim>\<open>EventLoopThread::main\<close> for one event of the device.
  When the queue is full the dispatcher waits until it is not; the queue of the model
  always has room.
\<close>

definition dispatch_event :: "events_t \<Rightarrow> pool_state \<Rightarrow> pool_state" where
  "dispatch_event event_events s =
     (case test_and_set_being_processed_by_thread_pool event_events
             (m_being_processed_by_thread_pool s) of
        (already_being_processed_by_thread_pool, bits) \<Rightarrow>
          (let events = event_events AND NOT already_being_processed_by_thread_pool
           in if events = 0 then s\<lparr>m_being_processed_by_thread_pool := bits\<rparr>
              else s\<lparr>m_being_processed_by_thread_pool := bits, queue := queue s @ [events]\<rparr>))"

text \<open>The effect on the device of the call a worker completes.\<close>

fun complete_call :: "call \<Rightarrow> events_t \<Rightarrow> events_t" where
  "complete_call (ClearBeingProcessed event) bits = clear_being_processed_by_thread_pool event bits"
| "complete_call c bits = bits"

text \<open>
  The steps of the system: the dispatcher handles an event; a worker takes a closure out
  of the queue (in any order); a worker completes the call it is in; a worker that has
  made all its calls goes away.
\<close>

inductive step :: "pool_state \<Rightarrow> pool_state \<Rightarrow> bool" where
  dispatch: "step s (dispatch_event event_events s)"
| take: "queue s = q1 @ events # q2 \<Longrightarrow>
         step s (s\<lparr>queue := q1 @ q2, workers := workers s @ [closure events]\<rparr>)"
| run: "workers s = w1 @ (c # cs) # w2 \<Longrightarrow>
        step s (s\<lparr>workers := w1 @ cs # w2,
                  m_being_processed_by_thread_pool :=
                    complete_call c (m_being_processed_by_thread_pool s)\<rparr>)"
| finish: "workers s = w1 @ [] # w2 \<Longrightarrow> step s (s\<lparr>workers := w1 @ w2\<rparr>)"

definition pool_init :: pool_state where
  "pool_init = \<lparr>m_being_processed_by_thread_pool = 0, queue = [], workers = []\<rparr>"

inductive reachable :: "pool_state \<Rightarrow> bool" where
  init: "reachable pool_init"
| step: "reachable s \<Longrightarrow> step s s' \<Longrightarrow> reachable s'"

text \<open>A worker is handling a direction while it is in the callback of that direction.\<close>

fun in_call :: "call \<Rightarrow> call list \<Rightarrow> bool" where
  "in_call c [] = False"
| "in_call c (x # xs) = (x = c)"

text \<open>A closure owns a direction from its creation until it has cleared the bit.\<close>

definition owns :: "events_t \<Rightarrow> call list \<Rightarrow> bool" where
  "owns b w = (ClearBeingProcessed b \<in> set w)"

fun ordered :: "call \<Rightarrow> events_t \<Rightarrow> call list \<Rightarrow> bool" where
  "ordered c b [] = True"
| "ordered c b (x # xs) = ((x = c \<longrightarrow> ClearBeingProcessed b \<in> set xs) \<and> ordered c b xs)"

definition wf_worker :: "call list \<Rightarrow> bool" where
  "wf_worker w =
     (distinct w \<and> ordered ReadEvent EPOLLIN w \<and> ordered WriteEvent EPOLLOUT w
      \<and> (\<forall>b. ClearBeingProcessed b \<in> set w \<longrightarrow> b \<in> {EPOLLIN, EPOLLOUT, EPOLLHUP, EPOLLERR}))"

text \<open>The two directions are single bits, apart from each other and from the other two.\<close>

definition direction :: "events_t \<Rightarrow> bool" where
  "direction b = (b = EPOLLIN \<or> b = EPOLLOUT)"

definition owners :: "events_t \<Rightarrow> pool_state \<Rightarrow> nat" where
  "owners b s = length (filter (owns b) (map closure (queue s) @ workers s))"

definition pool_inv :: "events_t \<Rightarrow> pool_state \<Rightarrow> bool" where
  "pool_inv b s =
     ((\<forall>w \<in> set (workers s). wf_worker w)
      \<and> owners b s \<le> 1
      \<and> (0 < owners b s \<longrightarrow> m_being_processed_by_thread_pool s AND b \<noteq> 0))"


section \<open>StreamBuf: runs of producer and consumer operations\<close>





declare xsputn_loop.simps [code]



section \<open>StreamBuf: the bytes in the buffer and the invariant\<close>

text \<open>
  \<open>stored\<close> is every byte in the chain of blocks below the put pointer; the bytes not yet
  read, \<open>contents\<close>, start at the get pointer. While \<^verbatim>\<open>m_next_egptr\<close> is null the producer
  has reset the put area and the consumer has not yet followed: its get pointer counts as
  the start of the block. \<open>published\<close> is the put pointer as the consumer will see it, and
  \<open>get_limit\<close> the end of what it may read in the get node.
\<close>

definition stored :: "StreamBuf \<Rightarrow> char list" where
  "stored st =
     concat (map m_data (m_older_blocks st)) @ take (pptr st) (m_data (m_put_area_block_node st))"

definition read_offset :: "StreamBuf \<Rightarrow> nat" where
  "read_offset st = (if m_next_egptr st = Null then 0 else gptr st)"

definition contents :: "StreamBuf \<Rightarrow> char list" where
  "contents st = drop (read_offset st) (stored st)"

definition published :: "StreamBuf \<Rightarrow> ptr" where
  "published st = (if m_next_egptr st = Null then m_next_egptr2 st else m_next_egptr st)"

definition get_limit :: "StreamBuf \<Rightarrow> nat" where
  "get_limit st = (case m_older_blocks st of [] \<Rightarrow> pptr st | b # bs \<Rightarrow> m_block_size b)"

text \<open>
  \<open>live_size\<close> is the sum of the sizes of the blocks in the chain. \<open>written_total\<close> is the
  part of \<^verbatim>\<open>get_data_size_upper_bound\<close> that its comment calls what is written in total to
  the buffer.
\<close>

definition live_size :: "StreamBuf \<Rightarrow> nat" where
  "live_size st =
     sum_list (map m_block_size (m_older_blocks st)) + m_block_size (m_put_area_block_node st)"

definition written_total :: "StreamBuf \<Rightarrow> int" where
  "written_total st =
     m_total_allocated st + m_total_reset st - (int (epptr st) - int (pptr st))"

text \<open>
  The invariant of the runs in which every block is shorter than \<open>2 ^ 31\<close> bytes: the
  shape of the chain and of the put area, the get area, and the counters. \<open>B\<close> bounds the
  traffic so far.
\<close>

definition struct_inv :: "StreamBuf \<Rightarrow> bool" where
  "struct_inv st =
     ((\<forall>b \<in> set (m_older_blocks st). length (m_data b) = m_block_size b \<and> m_id b < m_created st
          \<and> m_id b \<noteq> m_id (m_put_area_block_node st) \<and> m_block_size b < 2 ^ 31)
      \<and> length (m_data (m_put_area_block_node st)) = m_block_size (m_put_area_block_node st)
      \<and> m_block_size (m_put_area_block_node st) < 2 ^ 31
      \<and> m_id (m_put_area_block_node st) < m_created st
      \<and> epptr st = m_block_size (m_put_area_block_node st)
      \<and> pptr st \<le> epptr st
      \<and> published st = Ptr (m_id (m_put_area_block_node st)) (pptr st)
      \<and> read_offset st \<le> get_limit st
      \<and> (m_next_egptr st \<noteq> Null \<longrightarrow>
            m_last_gptr st = Null
            \<or> (\<exists>x\<le>gptr st. m_last_gptr st = Ptr (m_id (m_get_area_block_node st)) x))
      \<and> 0 \<le> m_total_freed st
      \<and> m_total_allocated st = m_total_freed st + int (live_size st)
      \<and> m_total_allocated st < 2 ^ 63)"

definition get_area_inv :: "StreamBuf \<Rightarrow> bool" where
  "get_area_inv st =
     (gptr st \<le> egptr st
      \<and> (if m_next_egptr st = Null then egptr st = gptr st else egptr st \<le> get_limit st))"

definition count_inv :: "nat \<Rightarrow> StreamBuf \<Rightarrow> bool" where
  "count_inv B st =
     (0 \<le> m_total_read st
      \<and> m_total_read st + int (length (contents st)) \<le> written_total st
      \<and> written_total st \<le> int B
      \<and> - int B \<le> m_total_reset st
      \<and> B < 2 ^ 61)"

definition buf_inv :: "nat \<Rightarrow> StreamBuf \<Rightarrow> bool" where
  "buf_inv B st = (struct_inv st \<and> get_area_inv st \<and> count_inv B st)"




section \<open>Properties of the end-of-message finder\<close>

lemma memchr_Some:
  "memchr xs c n = Some i \<Longrightarrow> i < n \<and> i < length xs \<and> xs ! i = c \<and> (\<forall>j<i. xs ! j \<noteq> c)"
proof (induction xs c n arbitrary: i rule: memchr.induct)
  case (1 c n)
  then show ?case by simp
next
  case (2 x xs c n)
  show ?case
  proof (cases "n = 0 \<or> x = c")
    case True
    with "2.prems" show ?thesis by (auto split: if_splits)
  next
    case False
    with "2.prems" obtain k where k: "memchr xs c (n - 1) = Some k" and i: "i = Suc k"
      by auto
    from "2.IH" [OF _ _ k] False
    have "k < n - 1 \<and> k < length xs \<and> xs ! k = c \<and> (\<forall>j<k. xs ! j \<noteq> c)" by simp
    with False i show ?thesis by (auto simp: nth_Cons split: nat.splits)
  qed
qed

lemma memchr_None:
  "memchr xs c n = None \<Longrightarrow> n \<le> length xs \<Longrightarrow> \<forall>j<n. xs ! j \<noteq> c"
proof (induction xs c n rule: memchr.induct)
  case (1 c n)
  then show ?case by simp
next
  case (2 x xs c n)
  show ?case
  proof (cases "n = 0")
    case True
    then show ?thesis by simp
  next
    case False
    with "2.prems" have xc: "x \<noteq> c" and rec: "memchr xs c (n - 1) = None"
      by (auto split: if_splits)
    from "2.IH" [OF False xc rec] "2.prems" False
    have "\<forall>j<n - 1. xs ! j \<noteq> c" by simp
    with xc False show ?thesis by (auto simp: nth_Cons split: nat.splits)
  qed
qed

text \<open>
  Claim C9. For a byte array \<open>new_data\<close> holding (at least) \<open>rlen\<close> bytes: when a newline
  occurs among the first \<open>rlen\<close> bytes, the finder returns \<open>i + 1\<close> for the index \<open>i\<close> of the
  first one; when none occurs there, it returns \<open>0\<close>.
\<close>

theorem end_of_msg_finder_first_newline:
  assumes "rlen \<le> length new_data"
  shows "(\<forall>i. i < rlen \<and> new_data ! i = newline \<and> (\<forall>j<i. new_data ! j \<noteq> newline)
            \<longrightarrow> end_of_msg_finder new_data rlen = i + 1)
       \<and> ((\<forall>i<rlen. new_data ! i \<noteq> newline) \<longrightarrow> end_of_msg_finder new_data rlen = 0)
       \<and> (end_of_msg_finder new_data rlen = 0 \<longrightarrow> (\<forall>i<rlen. new_data ! i \<noteq> newline))"
proof (cases "memchr new_data newline rlen")
  case None
  from memchr_None [OF None assms] have no: "\<forall>j<rlen. new_data ! j \<noteq> newline" .
  with None show ?thesis by (auto simp: end_of_msg_finder_def)
next
  case (Some k)
  from memchr_Some [OF Some]
  have k: "k < rlen" "new_data ! k = newline" "\<forall>j<k. new_data ! j \<noteq> newline" by auto
  have uniq: "i = k" if i: "new_data ! i = newline" "\<forall>j<i. new_data ! j \<noteq> newline" for i
  proof (rule ccontr)
    assume "i \<noteq> k"
    then consider "i < k" | "k < i" by linarith
    then show False
    proof cases
      case 1
      with k(3) i(1) show False by simp
    next
      case 2
      with i(2) k(2) show False by simp
    qed
  qed
  have eq: "end_of_msg_finder new_data rlen = k + 1"
    using Some by (simp add: end_of_msg_finder_def)
  show ?thesis
  proof (intro conjI allI impI)
    fix i
    assume "i < rlen \<and> new_data ! i = newline \<and> (\<forall>j<i. new_data ! j \<noteq> newline)"
    then have "i = k" using uniq by blast
    with eq show "end_of_msg_finder new_data rlen = i + 1" by simp
  next
    assume "\<forall>i<rlen. new_data ! i \<noteq> newline"
    with k(1,2) show "end_of_msg_finder new_data rlen = 0" by blast
  next
    fix i
    assume "end_of_msg_finder new_data rlen = 0"
    with eq show "new_data ! i \<noteq> newline" by simp
  qed
qed

theorem end_of_msg_finder_first_newline_witness:
  "end_of_msg_finder ''ab'' 2 = 0
   \<and> end_of_msg_finder [CHR ''a'', newline, CHR ''b'', newline] 4 = 2"
proof -
  let ?xs = "[CHR ''a'', newline, CHR ''b'', newline]"
  have a: "(2::nat) \<le> length ''ab''" by simp
  have b: "(4::nat) \<le> length ?xs" by simp
  have no: "\<forall>i<2. ''ab'' ! i \<noteq> newline"
    by (simp add: newline_def less_Suc_eq numeral_2_eq_2)
  have first: "(1::nat) < 4 \<and> ?xs ! 1 = newline \<and> (\<forall>j<1. ?xs ! j \<noteq> newline)"
    by (simp add: newline_def)
  from end_of_msg_finder_first_newline [OF a] no
  have "end_of_msg_finder ''ab'' 2 = 0" by blast
  moreover from end_of_msg_finder_first_newline [OF b] first
  have "end_of_msg_finder ?xs 4 = 1 + 1" by blast
  ultimately show ?thesis by simp
qed


section \<open>Properties of the wake-up handler\<close>

text \<open>
  Claim C6. The wake-up handler sets \<open>m_stop_running\<close> exactly when \<open>m_terminate\<close> is
  \<open>forced\<close>, or is \<open>cleanly\<close> while \<open>m_active\<close> is 0: then the flag is true afterwards and
  nothing else changes; in every other state the dispatcher state is returned as it was.
\<close>

theorem s_wakeup_handler_sets_stop_running:
  "(if m_terminate self = forced \<or> (m_terminate self = cleanly \<and> m_active self = 0)
    then m_stop_running (s_wakeup_handler self)
         \<and> m_terminate (s_wakeup_handler self) = m_terminate self
         \<and> m_active (s_wakeup_handler self) = m_active self
         \<and> m_running (s_wakeup_handler self) = m_running self
         \<and> EventLoopThread.more (s_wakeup_handler self) = EventLoopThread.more self
    else s_wakeup_handler self = self)"
  by (simp add: s_wakeup_handler_def)

theorem s_wakeup_handler_sets_stop_running_witness:
  "m_stop_running (s_wakeup_handler
      \<lparr>m_terminate = forced, m_active = 3, m_stop_running = False, m_running = True\<rparr>)
   \<and> m_stop_running (s_wakeup_handler
      \<lparr>m_terminate = cleanly, m_active = 0, m_stop_running = False, m_running = True\<rparr>)
   \<and> \<not> m_stop_running (s_wakeup_handler
      \<lparr>m_terminate = cleanly, m_active = 1, m_stop_running = False, m_running = True\<rparr>)
   \<and> \<not> m_stop_running (s_wakeup_handler
      \<lparr>m_terminate = not_yet, m_active = 0, m_stop_running = False, m_running = True\<rparr>)"
  using
    s_wakeup_handler_sets_stop_running
      [of "\<lparr>m_terminate = forced, m_active = 3, m_stop_running = False, m_running = True\<rparr>"]
    s_wakeup_handler_sets_stop_running
      [of "\<lparr>m_terminate = cleanly, m_active = 0, m_stop_running = False, m_running = True\<rparr>"]
    s_wakeup_handler_sets_stop_running
      [of "\<lparr>m_terminate = cleanly, m_active = 1, m_stop_running = False, m_running = True\<rparr>"]
    s_wakeup_handler_sets_stop_running
      [of "\<lparr>m_terminate = not_yet, m_active = 0, m_stop_running = False, m_running = True\<rparr>"]
  by simp

section \<open>Properties of the thread-pool closure\<close>

lemma hup_not_in_out:
  "events AND EPOLLHUP \<noteq> 0 \<Longrightarrow> events AND NOT (EPOLLIN OR EPOLLOUT) \<noteq> 0"
proof
  assume h: "events AND EPOLLHUP \<noteq> 0" and z: "events AND NOT (EPOLLIN OR EPOLLOUT) = 0"
  have "EPOLLHUP = NOT (EPOLLIN OR EPOLLOUT) AND EPOLLHUP"
    by (simp add: EPOLLHUP_def EPOLLIN_def EPOLLOUT_def)
  then have "events AND EPOLLHUP = (events AND NOT (EPOLLIN OR EPOLLOUT)) AND EPOLLHUP"
    by (metis and.assoc)
  with z h show False by simp
qed

lemma err_not_in_out:
  "events AND EPOLLERR \<noteq> 0 \<Longrightarrow> events AND NOT (EPOLLIN OR EPOLLOUT) \<noteq> 0"
proof
  assume h: "events AND EPOLLERR \<noteq> 0" and z: "events AND NOT (EPOLLIN OR EPOLLOUT) = 0"
  have "EPOLLERR = NOT (EPOLLIN OR EPOLLOUT) AND EPOLLERR"
    by (simp add: EPOLLERR_def EPOLLIN_def EPOLLOUT_def)
  then have "events AND EPOLLERR = (events AND NOT (EPOLLIN OR EPOLLOUT)) AND EPOLLERR"
    by (metis and.assoc)
  with z h show False by simp
qed

text \<open>
  Claim C5, as stated, fails: for an exceptional event (\<^verbatim>\<open>EPOLLERR\<close> without \<^verbatim>\<open>EPOLLHUP\<close>)
  the closure calls \<^verbatim>\<open>exceptional_event\<close>, clears the bit and allows deletion; it never
  calls \<^verbatim>\<open>close\<close>.
\<close>

theorem closure_exceptional_event_no_close:
  "closure EPOLLERR = [ExceptionalEvent, ClearBeingProcessed EPOLLERR, AllowDeletion]
   \<and> Close \<notin> set (closure EPOLLERR)"
  by (simp add: closure_def EPOLLHUP_def EPOLLIN_def EPOLLOUT_def EPOLLERR_def)

text \<open>
  Claim C5, amended. For every event mask with \<^verbatim>\<open>EPOLLHUP\<close> the closure calls \<^verbatim>\<open>hup_event\<close>
  and then closes the device. For every event mask with \<^verbatim>\<open>EPOLLERR\<close> and without
  \<^verbatim>\<open>EPOLLHUP\<close> it calls \<^verbatim>\<open>exceptional_event\<close> and does not close the device.
\<close>

theorem closure_hup_closes_exceptional_does_not:
  "(events AND EPOLLHUP \<noteq> 0 \<longrightarrow>
      closure events = [HupEvent, Close, ClearBeingProcessed EPOLLHUP, AllowDeletion])
   \<and> (events AND EPOLLHUP = 0 \<and> events AND EPOLLERR \<noteq> 0 \<longrightarrow>
      closure events = [ExceptionalEvent, ClearBeingProcessed EPOLLERR, AllowDeletion]
      \<and> Close \<notin> set (closure events))"
  using hup_not_in_out [of events] err_not_in_out [of events]
  by (simp add: closure_def)

theorem closure_hup_closes_exceptional_does_not_witness:
  "closure (EPOLLIN OR EPOLLHUP) = [HupEvent, Close, ClearBeingProcessed EPOLLHUP, AllowDeletion]
   \<and> closure (EPOLLOUT OR EPOLLERR)
       = [ExceptionalEvent, ClearBeingProcessed EPOLLERR, AllowDeletion]"
proof -
  have a: "(EPOLLIN OR EPOLLHUP) AND EPOLLHUP \<noteq> 0"
    by (simp add: EPOLLHUP_def EPOLLIN_def)
  have b: "(EPOLLOUT OR EPOLLERR) AND EPOLLHUP = 0 \<and> (EPOLLOUT OR EPOLLERR) AND EPOLLERR \<noteq> 0"
    by (simp add: EPOLLHUP_def EPOLLOUT_def EPOLLERR_def)
  from closure_hup_closes_exceptional_does_not [of "EPOLLIN OR EPOLLHUP"] a
    closure_hup_closes_exceptional_does_not [of "EPOLLOUT OR EPOLLERR"] b
  show ?thesis by blast
qed


section \<open>Properties of the put area\<close>









section \<open>Properties of the put-back hook\<close>

lemma StreamBuf_init_plain:
  "StreamBuf_init plain_allocator 4 8 =
     Some (Inr
     \<lparr>m_next_egptr = Ptr 0 0, m_next_egptr2 = Ptr 0 0, m_last_gptr = Null,
      m_total_freed = 0, m_total_read = 0, m_minimum_block_size = 4,
      m_max_allocated_block_size = 8, m_total_allocated = 4, m_total_reset = 0,
      m_put_area_block_node = \<lparr>m_id = 0, m_block_size = 4, m_data = replicate 4 (CHR 0x00)\<rparr>,
      m_older_blocks = [], pptr = 0, epptr = 4, gptr = 0, egptr = 0, m_created = 1\<rparr>)"
  by (simp add: StreamBuf_init_def plain_allocator_def size_t_def create_memory_block_def
      MemoryBlock_create_def sync_egptr_def block_start_def to_streamsize_def Let_def)

text \<open>
  Claim C8, as stated, fails at the argument \<^verbatim>\<open>EOF\<close>: \<^verbatim>\<open>pbackfail(EOF)\<close> returns 0 and the
  process goes on. The buffer is a freshly constructed one.
\<close>

theorem pbackfail_EOF_returns:
  "StreamBuf_init plain_allocator 4 8 =
     Some (Inr
     \<lparr>m_next_egptr = Ptr 0 0, m_next_egptr2 = Ptr 0 0, m_last_gptr = Null,
      m_total_freed = 0, m_total_read = 0, m_minimum_block_size = 4,
      m_max_allocated_block_size = 8, m_total_allocated = 4, m_total_reset = 0,
      m_put_area_block_node = \<lparr>m_id = 0, m_block_size = 4, m_data = replicate 4 (CHR 0x00)\<rparr>,
      m_older_blocks = [], pptr = 0, epptr = 4, gptr = 0, egptr = 0, m_created = 1\<rparr>)
   \<and> pbackfail EOF
     \<lparr>m_next_egptr = Ptr 0 0, m_next_egptr2 = Ptr 0 0, m_last_gptr = Null,
      m_total_freed = 0, m_total_read = 0, m_minimum_block_size = 4,
      m_max_allocated_block_size = 8, m_total_allocated = 4, m_total_reset = 0,
      m_put_area_block_node = \<lparr>m_id = 0, m_block_size = 4, m_data = replicate 4 (CHR 0x00)\<rparr>,
      m_older_blocks = [], pptr = 0, epptr = 4, gptr = 0, egptr = 0, m_created = 1\<rparr>
     = Inr (0,
     \<lparr>m_next_egptr = Ptr 0 0, m_next_egptr2 = Ptr 0 0, m_last_gptr = Null,
      m_total_freed = 0, m_total_read = 0, m_minimum_block_size = 4,
      m_max_allocated_block_size = 8, m_total_allocated = 4, m_total_reset = 0,
      m_put_area_block_node = \<lparr>m_id = 0, m_block_size = 4, m_data = replicate 4 (CHR 0x00)\<rparr>,
      m_older_blocks = [], pptr = 0, epptr = 4, gptr = 0, egptr = 0, m_created = 1\<rparr>)"
  by (simp add: StreamBuf_init_plain pbackfail_def)

text \<open>
  Claim C8, amended. For every argument other than \<^verbatim>\<open>EOF\<close>, \<^verbatim>\<open>pbackfail\<close> is fatal; for
  \<^verbatim>\<open>EOF\<close> it returns 0. In neither case is the buffer state modified.
\<close>

theorem pbackfail_fatal_unless_EOF:
  "(c \<noteq> EOF \<longrightarrow> pbackfail c st = Inl InvariantViolation)
   \<and> (c = EOF \<longrightarrow> pbackfail c st = Inr (0, st))"
  by (simp add: pbackfail_def)

theorem pbackfail_fatal_unless_EOF_witness:
  "StreamBuf_init plain_allocator 4 8 =
     Some (Inr
     \<lparr>m_next_egptr = Ptr 0 0, m_next_egptr2 = Ptr 0 0, m_last_gptr = Null,
      m_total_freed = 0, m_total_read = 0, m_minimum_block_size = 4,
      m_max_allocated_block_size = 8, m_total_allocated = 4, m_total_reset = 0,
      m_put_area_block_node = \<lparr>m_id = 0, m_block_size = 4, m_data = replicate 4 (CHR 0x00)\<rparr>,
      m_older_blocks = [], pptr = 0, epptr = 4, gptr = 0, egptr = 0, m_created = 1\<rparr>)
   \<and> pbackfail 97
     \<lparr>m_next_egptr = Ptr 0 0, m_next_egptr2 = Ptr 0 0, m_last_gptr = Null,
      m_total_freed = 0, m_total_read = 0, m_minimum_block_size = 4,
      m_max_allocated_block_size = 8, m_total_allocated = 4, m_total_reset = 0,
      m_put_area_block_node = \<lparr>m_id = 0, m_block_size = 4, m_data = replicate 4 (CHR 0x00)\<rparr>,
      m_older_blocks = [], pptr = 0, epptr = 4, gptr = 0, egptr = 0, m_created = 1\<rparr>
     = Inl InvariantViolation
   \<and> pbackfail (- 1)
     \<lparr>m_next_egptr = Ptr 0 0, m_next_egptr2 = Ptr 0 0, m_last_gptr = Null,
      m_total_freed = 0, m_total_read = 0, m_minimum_block_size = 4,
      m_max_allocated_block_size = 8, m_total_allocated = 4, m_total_reset = 0,
      m_put_area_block_node = \<lparr>m_id = 0, m_block_size = 4, m_data = replicate 4 (CHR 0x00)\<rparr>,
      m_older_blocks = [], pptr = 0, epptr = 4, gptr = 0, egptr = 0, m_created = 1\<rparr>
     = Inr (0,
     \<lparr>m_next_egptr = Ptr 0 0, m_next_egptr2 = Ptr 0 0, m_last_gptr = Null,
      m_total_freed = 0, m_total_read = 0, m_minimum_block_size = 4,
      m_max_allocated_block_size = 8, m_total_allocated = 4, m_total_reset = 0,
      m_put_area_block_node = \<lparr>m_id = 0, m_block_size = 4, m_data = replicate 4 (CHR 0x00)\<rparr>,
      m_older_blocks = [], pptr = 0, epptr = 4, gptr = 0, egptr = 0, m_created = 1\<rparr>)"
  using pbackfail_fatal_unless_EOF [of 97 "\<lparr>m_next_egptr = Ptr 0 0, m_next_egptr2 = Ptr 0 0, m_last_gptr = Null,
      m_total_freed = 0, m_total_read = 0, m_minimum_block_size = 4,
      m_max_allocated_block_size = 8, m_total_allocated = 4, m_total_reset = 0,
      m_put_area_block_node = \<lparr>m_id = 0, m_block_size = 4, m_data = replicate 4 (CHR 0x00)\<rparr>,
      m_older_blocks = [], pptr = 0, epptr = 4, gptr = 0, egptr = 0, m_created = 1\<rparr>"]
    pbackfail_fatal_unless_EOF [of "- 1" "\<lparr>m_next_egptr = Ptr 0 0, m_next_egptr2 = Ptr 0 0, m_last_gptr = Null,
      m_total_freed = 0, m_total_read = 0, m_minimum_block_size = 4,
      m_max_allocated_block_size = 8, m_total_allocated = 4, m_total_reset = 0,
      m_put_area_block_node = \<lparr>m_id = 0, m_block_size = 4, m_data = replicate 4 (CHR 0x00)\<rparr>,
      m_older_blocks = [], pptr = 0, epptr = 4, gptr = 0, egptr = 0, m_created = 1\<rparr>"]
  by (simp add: EOF_def StreamBuf_init_plain)

section \<open>Properties of the conditional start and stop\<close>

text \<open>
  Claim C10. When the condition is transitory-true and its re-test under the state lock
  is momentary-false, \<^verbatim>\<open>start_if\<close> on a device that is neither disabled nor active clears
  the active flag it has just set and returns false with the state as before the call;
  \<^verbatim>\<open>stop_if\<close> on an active device puts back the active flag it has just cleared and returns
  false with the state as before the call. More generally, whenever \<^verbatim>\<open>start_if\<close> or
  \<^verbatim>\<open>stop_if\<close> returns false the state is the state before the call.
\<close>

theorem start_if_stop_if_failed_atomic:
  "(is_transitory_true (m_value condition) \<and> is_momentary_false (reevaluated condition)
      \<and> \<not> test_disabled active_flag (m_flags s) \<and> active_flag \<notin> m_flags s
      \<longrightarrow> start_if condition active_flag s = Inr (False, s))
   \<and> (is_transitory_true (m_value condition) \<and> is_momentary_false (reevaluated condition)
      \<and> active_flag \<in> m_flags s
      \<longrightarrow> stop_if condition active_flag s = Inr (False, s))
   \<and> (\<forall>s'. start_if condition active_flag s = Inr (False, s') \<longrightarrow> s' = s)
   \<and> (\<forall>s'. stop_if condition active_flag s = Inr (False, s') \<longrightarrow> s' = s)"
proof (intro conjI allI impI)
  assume "is_transitory_true (m_value condition) \<and> is_momentary_false (reevaluated condition)
      \<and> \<not> test_disabled active_flag (m_flags s) \<and> active_flag \<notin> m_flags s"
  then show "start_if condition active_flag s = Inr (False, s)"
    by (simp add: start_if_def is_false_def is_transitory_true_def is_transitory_false_def
        test_and_set_active_def clear_active_def)
next
  assume "is_transitory_true (m_value condition) \<and> is_momentary_false (reevaluated condition)
      \<and> active_flag \<in> m_flags s"
  then show "stop_if condition active_flag s = Inr (False, s)"
    by (simp add: stop_if_def is_false_def is_transitory_true_def is_transitory_false_def
        test_and_clear_active_def set_active_def insert_absorb)
next
  fix s'
  assume "start_if condition active_flag s = Inr (False, s')"
  then show "s' = s"
    by (auto simp: start_if_def test_and_set_active_def clear_active_def test_and_set_added_def
        split: if_splits)
next
  fix s'
  assume "stop_if condition active_flag s = Inr (False, s')"
  then show "s' = s"
    by (auto simp: stop_if_def test_and_clear_active_def set_active_def insert_absorb
        split: if_splits)
qed

theorem start_if_stop_if_failed_atomic_witness:
  "start_if \<lparr>m_value = fuzzy_WasTrue, reevaluated = fuzzy_WasFalse\<rparr> FDS_W_ACTIVE
      \<lparr>m_flags = {FDS_W_OPEN, FDS_W_ADDED}, active_count = 1, calls = []\<rparr>
     = Inr (False, \<lparr>m_flags = {FDS_W_OPEN, FDS_W_ADDED}, active_count = 1, calls = []\<rparr>)
   \<and> stop_if \<lparr>m_value = fuzzy_WasTrue, reevaluated = fuzzy_False\<rparr> FDS_W_ACTIVE
      \<lparr>m_flags = {FDS_W_OPEN, FDS_W_ACTIVE, FDS_W_ADDED}, active_count = 1, calls = []\<rparr>
     = Inr (False, \<lparr>m_flags = {FDS_W_OPEN, FDS_W_ACTIVE, FDS_W_ADDED}, active_count = 1, calls = []\<rparr>)"
  using
    start_if_stop_if_failed_atomic
      [of "\<lparr>m_value = fuzzy_WasTrue, reevaluated = fuzzy_WasFalse\<rparr>" FDS_W_ACTIVE
          "\<lparr>m_flags = {FDS_W_OPEN, FDS_W_ADDED}, active_count = 1, calls = []\<rparr>"]
    start_if_stop_if_failed_atomic
      [of "\<lparr>m_value = fuzzy_WasTrue, reevaluated = fuzzy_False\<rparr>" FDS_W_ACTIVE
          "\<lparr>m_flags = {FDS_W_OPEN, FDS_W_ACTIVE, FDS_W_ADDED}, active_count = 1, calls = []\<rparr>"]
  by (simp add: is_transitory_true_def is_momentary_false_def test_disabled_def
      active_to_disabled_def)


section \<open>Properties of the dispatch to the thread pool\<close>

lemma EPOLL_distinct:
  "EPOLLIN \<noteq> EPOLLOUT" "EPOLLIN \<noteq> EPOLLHUP" "EPOLLIN \<noteq> EPOLLERR"
  "EPOLLOUT \<noteq> EPOLLHUP" "EPOLLOUT \<noteq> EPOLLERR" "EPOLLHUP \<noteq> EPOLLERR"
  "EPOLLOUT \<noteq> EPOLLIN" "EPOLLHUP \<noteq> EPOLLIN" "EPOLLERR \<noteq> EPOLLIN"
  "EPOLLHUP \<noteq> EPOLLOUT" "EPOLLERR \<noteq> EPOLLOUT" "EPOLLERR \<noteq> EPOLLHUP"
  by (simp_all add: EPOLLIN_def EPOLLOUT_def EPOLLHUP_def EPOLLERR_def)

lemma wf_closure: "wf_worker (closure events)"
  by (auto simp: closure_def wf_worker_def EPOLL_distinct)

lemma wf_worker_tl: "wf_worker (c # cs) \<Longrightarrow> wf_worker cs"
  by (simp add: wf_worker_def)

lemma direction_new_bit:
  assumes "direction b" and "(events AND NOT bits) AND b \<noteq> 0"
  shows "bits AND b = 0" and "(bits OR events) AND b \<noteq> 0"
proof -
  from assms(1) obtain k where k: "b = 2 ^ k"
  proof (cases "b = EPOLLIN")
    case True
    then have "b = 2 ^ 0" by (simp add: EPOLLIN_def)
    then show ?thesis by (rule that)
  next
    case False
    with assms(1) have "b = 2 ^ 2" by (simp add: direction_def EPOLLOUT_def)
    then show ?thesis by (rule that)
  qed
  from assms(2) have "bit (events AND NOT bits) k"
    by (simp add: k and_exp_eq_0_iff_not_bit)
  then have e: "bit events k" and nb: "\<not> bit bits k"
    by (simp_all add: bit_and_iff bit_not_iff)
  from nb show "bits AND b = 0" by (simp add: k and_exp_eq_0_iff_not_bit)
  from e have "bit (bits OR events) k" by (simp add: bit_or_iff)
  then show "(bits OR events) AND b \<noteq> 0" by (simp add: k and_exp_eq_0_iff_not_bit)
qed

lemma direction_keep_bit:
  assumes "bits AND b \<noteq> 0"
  shows "(bits OR events) AND b \<noteq> 0"
proof
  assume z: "(bits OR events) AND b = 0"
  have "bits AND (bits OR events) = bits"
    by (rule bit_eqI) (auto simp: bit_and_iff bit_or_iff)
  then have "bits AND b = (bits AND (bits OR events)) AND b" by simp
  also have "\<dots> = bits AND ((bits OR events) AND b)" by (simp only: and.assoc)
  finally show False using z assms by simp
qed

lemma direction_clear_other:
  assumes "direction b" and "b' \<in> {EPOLLIN, EPOLLOUT, EPOLLHUP, EPOLLERR}" and "b' \<noteq> b"
  shows "clear_being_processed_by_thread_pool b' bits AND b = bits AND b"
proof -
  from assms have "NOT b' AND b = b"
    by (auto simp: direction_def EPOLLIN_def EPOLLOUT_def EPOLLHUP_def EPOLLERR_def)
  then have "bits AND (NOT b' AND b) = bits AND b" by simp
  then show ?thesis
    by (simp only: clear_being_processed_by_thread_pool_def and.assoc)
qed

lemma owns_closure:
  "direction b \<Longrightarrow> owns b (closure events) \<Longrightarrow> events AND b \<noteq> 0"
  by (auto simp: direction_def owns_def closure_def EPOLL_distinct split: if_splits)

lemma in_call_owns:
  "wf_worker w \<Longrightarrow> in_call ReadEvent w \<Longrightarrow> owns EPOLLIN w"
  "wf_worker w \<Longrightarrow> in_call WriteEvent w \<Longrightarrow> owns EPOLLOUT w"
  by (cases w; auto simp: wf_worker_def owns_def)+

lemma pool_inv_init: "pool_inv b pool_init"
  by (simp add: pool_inv_def pool_init_def owners_def)

lemma pool_inv_dispatch:
  assumes d: "direction b" and inv: "pool_inv b s"
  shows "pool_inv b (dispatch_event events s)"
proof -
  let ?bits = "m_being_processed_by_thread_pool s"
  let ?new = "events AND NOT ?bits"
  show ?thesis
  proof (cases "?new = 0 \<or> \<not> owns b (closure ?new)")
    case True
    then have "owners b (dispatch_event events s) = owners b s"
      by (auto simp: dispatch_event_def test_and_set_being_processed_by_thread_pool_def
          owners_def Let_def)
    moreover have "workers (dispatch_event events s) = workers s"
      by (simp add: dispatch_event_def test_and_set_being_processed_by_thread_pool_def Let_def)
    moreover have "m_being_processed_by_thread_pool (dispatch_event events s) = ?bits OR events"
      by (simp add: dispatch_event_def test_and_set_being_processed_by_thread_pool_def Let_def)
    ultimately show ?thesis
      using inv direction_keep_bit [of ?bits b events] by (simp add: pool_inv_def)
  next
    case False
    then have new: "?new \<noteq> 0" and own: "owns b (closure ?new)" by simp_all
    from owns_closure [OF d own] have nb: "?new AND b \<noteq> 0" .
    from direction_new_bit [OF d nb] have free: "?bits AND b = 0"
      and set: "(?bits OR events) AND b \<noteq> 0" .
    from inv free have zero: "owners b s = 0" by (auto simp: pool_inv_def)
    from new own zero have "owners b (dispatch_event events s) = 1"
      by (simp add: dispatch_event_def test_and_set_being_processed_by_thread_pool_def
          owners_def Let_def)
    moreover from new have "workers (dispatch_event events s) = workers s"
      by (simp add: dispatch_event_def test_and_set_being_processed_by_thread_pool_def Let_def)
    moreover from new
    have "m_being_processed_by_thread_pool (dispatch_event events s) = ?bits OR events"
      by (simp add: dispatch_event_def test_and_set_being_processed_by_thread_pool_def Let_def)
    ultimately show ?thesis using inv set by (simp add: pool_inv_def)
  qed
qed

lemma pool_inv_step:
  assumes d: "direction b" and st: "step s s'" and inv: "pool_inv b s"
  shows "pool_inv b s'"
  using st inv
proof (induction rule: step.induct)
  case (dispatch s event_events)
  then show ?case by (rule pool_inv_dispatch [OF d])
next
  case (take s q1 events q2)
  let ?s' = "s\<lparr>queue := q1 @ q2, workers := workers s @ [closure events]\<rparr>"
  from take have "owners b ?s' = owners b s" by (simp add: owners_def)
  moreover from take have "\<forall>w \<in> set (workers ?s'). wf_worker w"
    by (simp add: pool_inv_def wf_closure)
  ultimately show ?case using take.prems by (simp add: pool_inv_def)
next
  case (run s w1 c cs w2)
  let ?bits = "m_being_processed_by_thread_pool s"
  let ?s' = "s\<lparr>workers := w1 @ cs # w2,
               m_being_processed_by_thread_pool := complete_call c ?bits\<rparr>"
  from run have wf: "wf_worker (c # cs)" by (simp add: pool_inv_def)
  then have wfcs: "wf_worker cs" by (rule wf_worker_tl)
  with run have wfs: "\<forall>w \<in> set (workers ?s'). wf_worker w" by (auto simp: pool_inv_def)
  show ?case
  proof (cases "c = ClearBeingProcessed b")
    case True
    with wf have "\<not> owns b cs" and "owns b (c # cs)" by (auto simp: wf_worker_def owns_def)
    with run have "owners b ?s' = 0" by (auto simp: pool_inv_def owners_def)
    with wfs show ?thesis by (simp add: pool_inv_def)
  next
    case False
    then have same: "owns b cs = owns b (c # cs)" by (auto simp: owns_def)
    with run have eq: "owners b ?s' = owners b s" by (simp add: owners_def)
    have "complete_call c ?bits AND b = ?bits AND b"
    proof (cases c)
      case (ClearBeingProcessed b')
      with wf have "b' \<in> {EPOLLIN, EPOLLOUT, EPOLLHUP, EPOLLERR}" by (simp add: wf_worker_def)
      moreover from ClearBeingProcessed False have "b' \<noteq> b" by simp
      ultimately show ?thesis
        using direction_clear_other [OF d] ClearBeingProcessed by simp
    qed simp_all
    with run.prems eq wfs show ?thesis by (simp add: pool_inv_def)
  qed
next
  case (finish s w1 w2)
  then show ?case by (auto simp: pool_inv_def owners_def owns_def)
qed

lemma reachable_pool_inv:
  "reachable s \<Longrightarrow> direction b \<Longrightarrow> pool_inv b s"
  by (induction rule: reachable.induct) (auto intro: pool_inv_init pool_inv_step)

lemma length_filter_mono:
  "(\<And>x. x \<in> set xs \<Longrightarrow> P x \<Longrightarrow> Q x) \<Longrightarrow> length (filter P xs) \<le> length (filter Q xs)"
  by (induction xs) auto

lemma handlers_le_owners:
  assumes "\<forall>w \<in> set (workers s). wf_worker w"
    and "\<And>w. wf_worker w \<Longrightarrow> in_call c w \<Longrightarrow> owns b w"
  shows "length (filter (in_call c) (workers s)) \<le> owners b s"
proof -
  have "length (filter (in_call c) (workers s)) \<le> length (filter (owns b) (workers s))"
    using assms by (intro length_filter_mono) auto
  then show ?thesis by (simp add: owners_def)
qed

text \<open>
  Claim C7. For an event of the device the dispatcher sets the bits of the event mask in
  \<^verbatim>\<open>m_being_processed_by_thread_pool\<close> and enqueues a closure for exactly the bits that were
  not set before, and none when there is no such bit. In every reachable state at most
  one worker is in \<^verbatim>\<open>read_event\<close> and at most one worker is in \<^verbatim>\<open>write_event\<close> of the
  device.
\<close>

theorem dispatch_event_exclusive:
  "queue (dispatch_event events s) =
     (if events AND NOT (m_being_processed_by_thread_pool s) = 0 then queue s
      else queue s @ [events AND NOT (m_being_processed_by_thread_pool s)])
   \<and> m_being_processed_by_thread_pool (dispatch_event events s)
       = m_being_processed_by_thread_pool s OR events
   \<and> (reachable s \<longrightarrow>
        length (filter (in_call ReadEvent) (workers s)) \<le> 1
        \<and> length (filter (in_call WriteEvent) (workers s)) \<le> 1)"
proof (intro conjI impI)
  show "queue (dispatch_event events s) =
     (if events AND NOT (m_being_processed_by_thread_pool s) = 0 then queue s
      else queue s @ [events AND NOT (m_being_processed_by_thread_pool s)])"
    by (simp add: dispatch_event_def test_and_set_being_processed_by_thread_pool_def Let_def)
  show "m_being_processed_by_thread_pool (dispatch_event events s)
       = m_being_processed_by_thread_pool s OR events"
    by (simp add: dispatch_event_def test_and_set_being_processed_by_thread_pool_def Let_def)
next
  assume r: "reachable s"
  from reachable_pool_inv [OF r, of EPOLLIN]
  have i: "pool_inv EPOLLIN s" by (simp add: direction_def)
  then have "length (filter (in_call ReadEvent) (workers s)) \<le> owners EPOLLIN s"
    by (intro handlers_le_owners in_call_owns) (simp_all add: pool_inv_def)
  with i show "length (filter (in_call ReadEvent) (workers s)) \<le> 1"
    by (simp add: pool_inv_def)
next
  assume r: "reachable s"
  from reachable_pool_inv [OF r, of EPOLLOUT]
  have i: "pool_inv EPOLLOUT s" by (simp add: direction_def)
  then have "length (filter (in_call WriteEvent) (workers s)) \<le> owners EPOLLOUT s"
    by (intro handlers_le_owners in_call_owns) (simp_all add: pool_inv_def)
  with i show "length (filter (in_call WriteEvent) (workers s)) \<le> 1"
    by (simp add: pool_inv_def)
qed

theorem dispatch_event_exclusive_witness:
  "reachable \<lparr>m_being_processed_by_thread_pool = EPOLLIN, queue = [],
              workers = [[ReadEvent, ClearBeingProcessed EPOLLIN, AllowDeletion]]\<rparr>
   \<and> queue (dispatch_event EPOLLIN
        \<lparr>m_being_processed_by_thread_pool = EPOLLIN, queue = [],
         workers = [[ReadEvent, ClearBeingProcessed EPOLLIN, AllowDeletion]]\<rparr>) = []
   \<and> length (filter (in_call ReadEvent)
        [[ReadEvent, ClearBeingProcessed EPOLLIN, AllowDeletion]]) \<le> 1"
proof -
  let ?s1 = "\<lparr>m_being_processed_by_thread_pool = EPOLLIN, queue = [EPOLLIN], workers = []\<rparr>"
  let ?s2 = "\<lparr>m_being_processed_by_thread_pool = EPOLLIN, queue = [],
              workers = [[ReadEvent, ClearBeingProcessed EPOLLIN, AllowDeletion]]\<rparr>"
  have "dispatch_event EPOLLIN pool_init = ?s1"
    by (simp add: dispatch_event_def test_and_set_being_processed_by_thread_pool_def pool_init_def
        EPOLLIN_def)
  with step.dispatch [of pool_init EPOLLIN] have "step pool_init ?s1" by simp
  with reachable.init have r1: "reachable ?s1" by (rule reachable.step)
  have "closure EPOLLIN = [ReadEvent, ClearBeingProcessed EPOLLIN, AllowDeletion]"
    by (simp add: closure_def EPOLLIN_def EPOLLOUT_def)
  with step.take [of ?s1 "[]" EPOLLIN "[]"] have "step ?s1 ?s2" by simp
  with r1 have r2: "reachable ?s2" by (rule reachable.step)
  from dispatch_event_exclusive [of EPOLLIN ?s2] r2 show ?thesis by simp
qed

section \<open>The invariant of the buffer\<close>



lemma struct_offset_le_stored:
  "struct_inv st \<Longrightarrow> read_offset st \<le> length (stored st)"
  by (cases "m_older_blocks st") (auto simp: struct_inv_def get_limit_def stored_def)

lemma read_offset_le_stored:
  "buf_inv B st \<Longrightarrow> read_offset st \<le> length (stored st)"
  by (simp add: buf_inv_def struct_offset_le_stored)



























































section \<open>First in, first out\<close>





section \<open>The byte counters\<close>





section \<open>A full buffer\<close>

text \<open>
  Claim C2 at a concrete input. A buffer with a minimum block size of 32 and at most 32
  allocated bytes is asked to take 40 bytes. \<^verbatim>\<open>xsputn_a\<close> copies the first 32 bytes into the
  block, finds that not even a block of the minimum size fits any more, and returns
  \<^verbatim>\<open>EOF\<close>, that is \<open>-1\<close>, where the claim has the number of bytes copied, 32.
\<close>

theorem xsputn_a_full_returns_EOF:
  "StreamBuf_init plain_allocator 32 32 =
     Some (Inr
        \<lparr>m_next_egptr = Ptr 0 0, m_next_egptr2 = Ptr 0 0, m_last_gptr = Null,
         m_total_freed = 0, m_total_read = 0, m_minimum_block_size = 32,
         m_max_allocated_block_size = 32, m_total_allocated = 32, m_total_reset = 0,
         m_put_area_block_node =
           \<lparr>m_id = 0, m_block_size = 32, m_data = replicate 32 (CHR 0x00)\<rparr>,
         m_older_blocks = [], pptr = 0, epptr = 32, gptr = 0, egptr = 0, m_created = 1\<rparr>)
   \<and> xsputn_a plain_allocator
        \<lparr>m_next_egptr = Ptr 0 0, m_next_egptr2 = Ptr 0 0, m_last_gptr = Null,
         m_total_freed = 0, m_total_read = 0, m_minimum_block_size = 32,
         m_max_allocated_block_size = 32, m_total_allocated = 32, m_total_reset = 0,
         m_put_area_block_node =
           \<lparr>m_id = 0, m_block_size = 32, m_data = replicate 32 (CHR 0x00)\<rparr>,
         m_older_blocks = [], pptr = 0, epptr = 32, gptr = 0, egptr = 0, m_created = 1\<rparr>
      ''0123456789abcdefghijklmnopqrstuvwxyzABCD''
     = Some (Inr (- 1),
        \<lparr>m_next_egptr = Ptr 0 32, m_next_egptr2 = Ptr 0 32, m_last_gptr = Null,
         m_total_freed = 0, m_total_read = 0, m_minimum_block_size = 32,
         m_max_allocated_block_size = 32, m_total_allocated = 32, m_total_reset = 0,
         m_put_area_block_node =
           \<lparr>m_id = 0, m_block_size = 32, m_data = ''0123456789abcdefghijklmnopqrstuv''\<rparr>,
         m_older_blocks = [], pptr = 32, epptr = 32, gptr = 0, egptr = 0, m_created = 1\<rparr>)"
  by code_simp

end
